theory Spec2Isabelle
  imports Complex_Main
begin

section \<open>Text literals of the user interface\<close>

text \<open>
  The source's string literals are Ukrainian text and typographic glyphs. A text is a
  \<^typ>\<open>string\<close> holding the UTF-8 encoding of the literal, one \<^typ>\<open>char\<close> per byte;
  \<open>utf8\<close> builds it from the byte values. ASCII literals are written directly.
\<close>

definition utf8 :: "nat list \<Rightarrow> string" where
  "utf8 bs = map char_of bs"

definition placeholder_caption :: string where
  "placeholder_caption = utf8
    [208, 147, 209, 128, 208, 176, 209, 132, 209, 150, 208, 186, 208, 184, 32, 208,
     191, 209, 128, 208, 190, 209, 134, 208, 181, 209, 129, 209, 131, 32, 208, 188,
     209, 150, 208, 189, 209, 150, 208, 188, 209, 150, 208, 183, 208, 176, 209, 134,
     209, 150, 209, 151, 10, 208, 183, 39, 209, 143, 208, 178, 208, 187, 209, 143,
     209, 130, 209, 140, 209, 129, 209, 143, 32, 208, 191, 209, 150, 209, 129, 208,
     187, 209, 143, 32, 208, 183, 208, 176, 208, 191, 209, 131, 209, 129, 208, 186,
     209, 131]"

definition contour_unsupported_caption :: string where
  "contour_unsupported_caption = utf8
    [67, 111, 110, 116, 111, 117, 114, 32, 47, 32, 208, 191, 208, 190, 208, 178,
     208, 181, 209, 128, 209, 133, 208, 189, 209, 143, 32, 208, 180, 208, 190, 209,
     129, 209, 130, 209, 131, 208, 191, 208, 189, 209, 150, 10, 208, 187, 208, 184,
     209, 136, 208, 181, 32, 208, 180, 208, 187, 209, 143, 32, 208, 183, 208, 176,
     208, 180, 208, 176, 209, 135, 209, 150, 32, 208, 178, 32, 82, 194, 178]"

definition surface_unsupported_caption :: string where
  "surface_unsupported_caption = utf8
    [208, 157, 208, 181, 208, 188, 208, 190, 208, 182, 208, 187, 208, 184, 208, 178,
     208, 190, 32, 208, 191, 208, 190, 208, 177, 209, 131, 208, 180, 209, 131, 208,
     178, 208, 176, 209, 130, 208, 184, 10, 51, 68, 45, 208, 191, 208, 190, 208,
     178, 208, 181, 209, 128, 209, 133, 208, 189, 209, 142]"

definition fk_xlabel :: string where
  "fk_xlabel = utf8
    [107, 32, 40, 208, 189, 208, 190, 208, 188, 208, 181, 209, 128, 32, 209, 150,
     209, 130, 208, 181, 209, 128, 208, 176, 209, 134, 209, 150, 209, 151, 41]"

definition fk_ylabel :: string where
  "fk_ylabel = utf8
    [102, 40, 120, 226, 130, 150, 41]"

definition fk_title :: string where
  "fk_title = utf8
    [208, 147, 209, 128, 208, 176, 209, 132, 209, 150, 208, 186, 32, 102, 40, 107,
     41]"

definition label_trajectory :: string where
  "label_trajectory = utf8
    [208, 162, 209, 128, 208, 176, 209, 148, 208, 186, 209, 130, 208, 190, 209, 128,
     209, 150, 209, 143]"

definition label_start :: string where
  "label_start = utf8
    [208, 161, 209, 130, 208, 176, 209, 128, 209, 130]"

definition label_minimum :: string where
  "label_minimum = utf8
    [208, 156, 209, 150, 208, 189, 209, 150, 208, 188, 209, 131, 208, 188]"

definition x1_label :: string where
  "x1_label = utf8
    [120, 226, 130, 129]"

definition x2_label :: string where
  "x2_label = utf8
    [120, 226, 130, 130]"

definition contour_title :: string where
  "contour_title = utf8
    [208, 160, 209, 150, 208, 178, 208, 189, 209, 150, 32, 209, 132, 209, 131, 208,
     189, 208, 186, 209, 134, 209, 150, 209, 151, 32, 209, 130, 208, 176, 32, 209,
     130, 209, 128, 208, 176, 209, 148, 208, 186, 209, 130, 208, 190, 209, 128, 209,
     150, 209, 143]"

definition surface_zlabel :: string where
  "surface_zlabel = utf8
    [102, 40, 120, 226, 130, 129, 44, 32, 120, 226, 130, 130, 41]"

definition surface_title :: string where
  "surface_title = utf8
    [208, 159, 208, 190, 208, 178, 208, 181, 209, 128, 209, 133, 208, 189, 209, 143,
     32, 102, 40, 120, 226, 130, 129, 44, 32, 120, 226, 130, 130, 41, 32, 43, 32,
     209, 130, 209, 128, 208, 176, 209, 148, 208, 186, 209, 130, 208, 190, 209, 128,
     209, 150, 209, 143]"

definition status_ready :: string where
  "status_ready = utf8
    [208, 147, 208, 190, 209, 130, 208, 190, 208, 178, 208, 190]"

definition en_dash :: string where
  "en_dash = utf8
    [226, 128, 147]"

text \<open>The colours of the theme, module constants of \<open>plot_view.py\<close>.\<close>

definition BG_COLOR :: string where "BG_COLOR = ''#050714''"
definition PANEL_BORDER :: string where "PANEL_BORDER = ''#22d3ee''"
definition TEXT_MAIN :: string where "TEXT_MAIN = ''#e0f2fe''"
definition TEXT_MUTED :: string where "TEXT_MUTED = ''#64748b''"
definition ACCENT_1 :: string where "ACCENT_1 = ''#22c55e''"
definition ACCENT_2 :: string where "ACCENT_2 = ''#e879f9''"
definition ACCENT_3 :: string where "ACCENT_3 = ''#0ea5e9''"

section \<open>Numbers, exceptions and iteration records\<close>

text \<open>
  Python's \<open>float\<close> is modelled by \<^typ>\<open>real\<close>: finite values with exact arithmetic.
  Rounding error, infinities and NaN are outside the model. Python's \<open>int\<close> is
  \<^typ>\<open>int\<close>.
\<close>

datatype error = ValueError | TypeError | Raised string

text \<open>
  The Python values the entry points are called with: \<open>None\<close>, the numbers
  (\<open>bool\<close>, \<open>int\<close>, \<open>float\<close>) and lists.
\<close>

text \<open>
  Modelled from the spec: the class \<open>IterationResult\<close> of \<open>core/iteration_result.py\<close>,
  an immutable record per optimisation step: an integer index, a numeric vector \<open>x\<close>, a
  scalar objective value \<open>f\<close>, a scalar step norm and free-form metadata. The field
  names are those of the constructor call in \<open>MainWindow.add_iteration_row\<close>.
\<close>

datatype pynum = NBool bool | NInt int | NFloat real

datatype pyval = PyNone | PyNum pynum | PyList "pyval list"

record IterationResult =
  index :: int
  x :: "real list"
  f :: real
  step_norm :: real
  meta :: "(string \<times> pyval) list"

section \<open>The drawing surfaces\<close>

text \<open>
  What the charting library draws on an axes object: captions, polylines, markers, the
  contour set with its labels, and the surface. Each artist keeps the data it was
  given and the colour, marker and legend label the source passes.
\<close>

datatype artist =
    TextArtist real real string string
  | Line2D "real list" "real list" string string
  | Marker2D real real string string string
  | ContourSet "real list list" "real list list" "real list list" int
  | ContourLabels
  | Surface "real list list" "real list list" "real list list"
  | Line3D "real list" "real list" "real list" string string
  | Marker3D "real list" "real list" "real list" string string string

record axes =
  facecolor :: string
  spine_color :: string
  spine_linewidth :: real
  tick_color :: string
  tick_labelsize :: nat
  grid :: "(string \<times> string \<times> real \<times> real) option"
  xlabel_color :: string
  ylabel_color :: string
  zlabel_color :: string
  title_color :: string
  title_fontsize :: nat
  artists :: "artist list"
  xticks :: "real list option"
  yticks :: "real list option"
  zticks :: "real list option"
  title :: string
  xlabel :: string
  ylabel :: string
  zlabel :: string
  legend :: "(string \<times> nat \<times> string \<times> string) option"

text \<open>An axes object as the figure creates it, with the library's defaults.\<close>

definition new_axes :: axes where
  "new_axes = \<lparr> facecolor = ''white'', spine_color = ''black'', spine_linewidth = 0.8,
     tick_color = ''black'', tick_labelsize = 10, grid = None,
     xlabel_color = ''black'', ylabel_color = ''black'', zlabel_color = ''black'',
     title_color = ''black'', title_fontsize = 12, artists = [],
     xticks = None, yticks = None, zticks = None,
     title = [], xlabel = [], ylabel = [], zlabel = [], legend = None \<rparr>"

text \<open>
  \<open>ax.clear()\<close> removes the artists, the legend, the title and the axis labels and
  resets ticks, grid and text properties to the defaults. The face colour and the
  spines' appearance belong to objects that survive the call, so they are kept.
\<close>

definition clear :: "axes \<Rightarrow> axes" where
  "clear ax = new_axes \<lparr> facecolor := facecolor ax, spine_color := spine_color ax,
     spine_linewidth := spine_linewidth ax \<rparr>"

definition add_artist :: "artist \<Rightarrow> axes \<Rightarrow> axes" where
  "add_artist a ax = ax \<lparr> artists := artists ax @ [a] \<rparr>"

section \<open>PlotView\<close>

record PlotView =
  ax_surface :: axes
  ax_fk :: axes
  ax_contour :: axes

definition style_2d_axes :: "axes \<Rightarrow> axes" where
  "style_2d_axes ax = ax \<lparr> facecolor := ''#020617'',
     tick_color := TEXT_MUTED, tick_labelsize := 8,
     spine_color := PANEL_BORDER, spine_linewidth := 0.8,
     grid := Some (''#1f2937'', ''--'', 0.6, 0.7),
     xlabel_color := TEXT_MAIN, ylabel_color := TEXT_MAIN,
     title_color := ACCENT_2, title_fontsize := 10 \<rparr>"

definition style_3d_axes :: "axes \<Rightarrow> axes" where
  "style_3d_axes ax = ax \<lparr> facecolor := ''#020617'',
     tick_color := TEXT_MUTED, tick_labelsize := 7,
     xlabel_color := TEXT_MAIN, ylabel_color := TEXT_MAIN, zlabel_color := TEXT_MAIN,
     title_color := ACCENT_1, title_fontsize := 10 \<rparr>"

definition apply_cyberpunk_style_all :: "PlotView \<Rightarrow> PlotView" where
  "apply_cyberpunk_style_all v = v \<lparr> ax_surface := style_3d_axes (ax_surface v),
     ax_fk := style_2d_axes (ax_fk v), ax_contour := style_2d_axes (ax_contour v) \<rparr>"

definition clear_all_axes :: "PlotView \<Rightarrow> PlotView" where
  "clear_all_axes v = v \<lparr> ax_fk := clear (ax_fk v), ax_contour := clear (ax_contour v),
     ax_surface := clear (ax_surface v) \<rparr>"

text \<open>
  \<open>_redraw\<close> recomputes the layout and schedules a repaint of the canvas. It changes
  nothing of what the axes hold.
\<close>

definition redraw :: "PlotView \<Rightarrow> PlotView" where
  "redraw v = v"

definition show_placeholder :: "PlotView \<Rightarrow> PlotView" where
  "show_placeholder v =
     (let v1 = apply_cyberpunk_style_all (clear_all_axes v);
          fk = add_artist (TextArtist 0.5 0.5 placeholder_caption ACCENT_3) (ax_fk v1);
          fk = fk \<lparr> xticks := Some [], yticks := Some [], title := [] \<rparr>;
          co = (ax_contour v1) \<lparr> xticks := Some [], yticks := Some [], title := [] \<rparr>;
          su = (ax_surface v1) \<lparr> xticks := Some [], yticks := Some [], zticks := Some [],
                 title := [] \<rparr>
      in redraw (v1 \<lparr> ax_fk := fk, ax_contour := co, ax_surface := su \<rparr>))"

text \<open>
  \<open>_build_ui\<close>: the three axes are created, styled, and the placeholder is shown.
\<close>

definition build_ui :: PlotView where
  "build_ui = show_placeholder (apply_cyberpunk_style_all
     \<lparr> ax_surface = new_axes, ax_fk = new_axes, ax_contour = new_axes \<rparr>)"

text \<open>
  The result of a plotting call: the view as the call leaves it, the points at which
  the objective function was invoked, in order, and the exception that ended the call,
  if one did.
\<close>

record outcome =
  view :: PlotView
  calls :: "real list list"
  raised :: "error option"

definition plot_fk :: "PlotView \<Rightarrow> IterationResult list \<Rightarrow> outcome" where
  "plot_fk v iterations =
     (if iterations = [] then \<lparr> view = show_placeholder v, calls = [], raised = None \<rparr>
      else
        let fk = style_2d_axes (clear (ax_fk v));
            ks = map (\<lambda>it. real_of_int (index it)) iterations;
            fs = map f iterations;
            fk = add_artist (Line2D ks fs ACCENT_3 []) fk;
            fk = fk \<lparr> xlabel := fk_xlabel, ylabel := fk_ylabel, title := fk_title \<rparr>
        in \<lparr> view = redraw (v \<lparr> ax_fk := fk \<rparr>), calls = [], raised = None \<rparr>)"


subsection \<open>Arrays and grids\<close>

text \<open>
  \<open>np.array(rows, dtype=float)\<close> on a list of vectors: the rows must have one common
  length, otherwise the library raises \<open>ValueError\<close> (inhomogeneous shape). The result
  carries its shape; an empty list gives shape \<open>(0,)\<close>.
\<close>

record ndarray =
  shape :: "nat list"
  rows :: "real list list"

definition ndim :: "ndarray \<Rightarrow> nat" where
  "ndim a = length (shape a)"

definition np_array :: "real list list \<Rightarrow> error + ndarray" where
  "np_array rs =
     (case rs of
        [] \<Rightarrow> Inr \<lparr> shape = [0], rows = [] \<rparr>
      | r # rest \<Rightarrow>
          if list_all (\<lambda>r'. length r' = length r) rest
          then Inr \<lparr> shape = [length rs, length r], rows = rs \<rparr>
          else Inl ValueError)"

text \<open>\<open>min()\<close> and \<open>max()\<close> of a one-dimensional array raise on an empty one.\<close>

fun amin :: "real list \<Rightarrow> error + real" where
  "amin [] = Inl ValueError"
| "amin (c # cs) = Inr (fold min cs c)"

fun amax :: "real list \<Rightarrow> error + real" where
  "amax [] = Inl ValueError"
| "amax (c # cs) = Inr (fold max cs c)"

definition column :: "nat \<Rightarrow> real list list \<Rightarrow> real list" where
  "column k rs = map (\<lambda>r. r ! k) rs"

text \<open>
  The plotting domain on one axis: the extent of the trajectory, widened by one on
  each side when it is narrower than \<open>1e-9\<close>, then by \<open>padding\<close> on each side.
\<close>

definition expand_degenerate :: "real \<times> real \<Rightarrow> real \<times> real" where
  "expand_degenerate b =
     (case b of (lo, hi) \<Rightarrow> if \<bar>hi - lo\<bar> < 1 / 10 ^ 9 then (lo - 1, hi + 1) else (lo, hi))"

definition apply_padding :: "real \<Rightarrow> real \<times> real \<Rightarrow> real \<times> real" where
  "apply_padding padding b = (case b of (lo, hi) \<Rightarrow> (lo - padding, hi + padding))"

definition axis_bounds :: "real \<Rightarrow> real list \<Rightarrow> error + real \<times> real" where
  "axis_bounds padding col =
     (case amin col of
        Inl e \<Rightarrow> Inl e
      | Inr lo \<Rightarrow>
          (case amax col of
             Inl e \<Rightarrow> Inl e
           | Inr hi \<Rightarrow> Inr (apply_padding padding (expand_degenerate (lo, hi)))))"

text \<open>
  \<open>np.linspace(start, stop, num)\<close>: \<open>num\<close> evenly spaced samples from \<open>start\<close> to
  \<open>stop\<close>, both included; a negative \<open>num\<close> raises \<open>ValueError\<close>.
\<close>

definition linspace :: "real \<Rightarrow> real \<Rightarrow> int \<Rightarrow> error + real list" where
  "linspace start stop num =
     (if num < 0 then Inl ValueError
      else if num = 1 then Inr [start]
      else Inr (map (\<lambda>k. start + real k * ((stop - start) / real (nat num - 1)))
                  [0 ..< nat num]))"

text \<open>
  \<open>np.meshgrid(x1_vals, x2_vals)\<close>: \<open>X1[i][j] = x1_vals[j]\<close> and
  \<open>X2[i][j] = x2_vals[i]\<close>.
\<close>

definition meshgrid :: "real list \<Rightarrow> real list \<Rightarrow> real list list \<times> real list list" where
  "meshgrid x1_vals x2_vals =
     (replicate (length x2_vals) x1_vals,
      map (\<lambda>y. replicate (length x1_vals) y) x2_vals)"

definition grid_points :: "real list list \<Rightarrow> real list list \<Rightarrow> real list list list" where
  "grid_points X1 X2 = map (\<lambda>(r1, r2). map (\<lambda>(a, b). [a, b]) (zip r1 r2)) (zip X1 X2)"

text \<open>
  Calling the objective function on a sequence of points, in order, until one call
  raises. The first component lists the points at which the function was invoked.
\<close>

fun eval_points ::
  "(real list \<Rightarrow> error + real) \<Rightarrow> real list list \<Rightarrow> real list list \<times> (error + real list)"
where
  "eval_points func [] = ([], Inr [])"
| "eval_points func (p # ps) =
     (case func p of
        Inl e \<Rightarrow> ([p], Inl e)
      | Inr z \<Rightarrow>
          (case eval_points func ps of
             (cs, Inl e) \<Rightarrow> (p # cs, Inl e)
           | (cs, Inr zs) \<Rightarrow> (p # cs, Inr (z # zs))))"

text \<open>The nested loop over the grid, row by row.\<close>

fun eval_grid ::
  "(real list \<Rightarrow> error + real) \<Rightarrow> real list list list
     \<Rightarrow> real list list \<times> (error + real list list)"
where
  "eval_grid func [] = ([], Inr [])"
| "eval_grid func (row # others) =
     (case eval_points func row of
        (cs, Inl e) \<Rightarrow> (cs, Inl e)
      | (cs, Inr zs) \<Rightarrow>
          (case eval_grid func others of
             (cs', Inl e) \<Rightarrow> (cs @ cs', Inl e)
           | (cs', Inr zss) \<Rightarrow> (cs @ cs', Inr (zs # zss))))"

subsection \<open>Contour and surface\<close>

definition draw_unsupported :: "PlotView \<Rightarrow> PlotView" where
  "draw_unsupported v =
     (let co = style_2d_axes (ax_contour v);
          su = style_3d_axes (ax_surface v);
          co = add_artist (TextArtist 0.5 0.5 contour_unsupported_caption ACCENT_2) co;
          su = add_artist (TextArtist 0.5 0.5 surface_unsupported_caption ACCENT_2) su
      in redraw (v \<lparr> ax_contour := co, ax_surface := su \<rparr>))"

definition draw_contour ::
  "axes \<Rightarrow> real list list \<Rightarrow> real list list \<Rightarrow> real list list \<Rightarrow> int
     \<Rightarrow> real list \<Rightarrow> real list \<Rightarrow> axes"
where
  "draw_contour co X1 X2 Z levels x1_traj x2_traj =
     (let co = add_artist (ContourSet X1 X2 Z levels) co;
          co = add_artist ContourLabels co;
          co = add_artist (Line2D x1_traj x2_traj ACCENT_3 label_trajectory) co;
          co = add_artist (Marker2D (hd x1_traj) (hd x2_traj) ''s'' ACCENT_1 label_start) co;
          co = add_artist
                 (Marker2D (last x1_traj) (last x2_traj) ''*'' ACCENT_2 label_minimum) co
      in co \<lparr> xlabel := x1_label, ylabel := x2_label, title := contour_title,
              legend := Some (''best'', 7, ''#020617'', PANEL_BORDER) \<rparr>)"

definition draw_surface_trajectory ::
  "axes \<Rightarrow> real list \<Rightarrow> real list \<Rightarrow> real list \<Rightarrow> axes"
where
  "draw_surface_trajectory su x1_traj x2_traj z_traj =
     (let su = add_artist (Line3D x1_traj x2_traj z_traj ''#020617'' []) su;
          su = add_artist (Line3D x1_traj x2_traj z_traj ACCENT_1 label_trajectory) su;
          su = add_artist
                 (Marker3D [hd x1_traj] [hd x2_traj] [hd z_traj] ''s'' ACCENT_1 label_start) su;
          su = add_artist
                 (Marker3D [last x1_traj] [last x2_traj] [last z_traj] ''*'' ACCENT_2
                    label_minimum) su
      in su \<lparr> xlabel := x1_label, ylabel := x2_label, zlabel := surface_zlabel,
              title := surface_title \<rparr>)"

text \<open>
  The two-dimensional case of \<open>plot_contour_trajectory\<close>, from the computation of the
  plotting domain on. The contour call of the library rejects a grid smaller than
  \<open>2 \<times> 2\<close> with \<open>TypeError\<close>.
\<close>

definition plot_grid ::
  "PlotView \<Rightarrow> (real list \<Rightarrow> error + real) \<Rightarrow> real list list \<Rightarrow> int \<Rightarrow> real \<Rightarrow> int
     \<Rightarrow> outcome"
where
  "plot_grid v func xs levels padding grid_size =
     (case axis_bounds padding (column 0 xs) of
        Inl e \<Rightarrow> \<lparr> view = v, calls = [], raised = Some e \<rparr>
      | Inr (x1_min, x1_max) \<Rightarrow>
     (case axis_bounds padding (column 1 xs) of
        Inl e \<Rightarrow> \<lparr> view = v, calls = [], raised = Some e \<rparr>
      | Inr (x2_min, x2_max) \<Rightarrow>
     (case linspace x1_min x1_max grid_size of
        Inl e \<Rightarrow> \<lparr> view = v, calls = [], raised = Some e \<rparr>
      | Inr x1_vals \<Rightarrow>
     (case linspace x2_min x2_max grid_size of
        Inl e \<Rightarrow> \<lparr> view = v, calls = [], raised = Some e \<rparr>
      | Inr x2_vals \<Rightarrow>
     (case meshgrid x1_vals x2_vals of (X1, X2) \<Rightarrow>
     (case eval_grid func (grid_points X1 X2) of
        (cs, Inl e) \<Rightarrow> \<lparr> view = v, calls = cs, raised = Some e \<rparr>
      | (cs, Inr Z) \<Rightarrow>
          let co = style_2d_axes (ax_contour v) in
          if grid_size < 2
          then \<lparr> view = v \<lparr> ax_contour := co \<rparr>, calls = cs, raised = Some TypeError \<rparr>
          else
            let x1_traj = column 0 xs;
                x2_traj = column 1 xs;
                co = draw_contour co X1 X2 Z levels x1_traj x2_traj;
                su = add_artist (Surface X1 X2 Z) (style_3d_axes (ax_surface v));
                v = v \<lparr> ax_contour := co, ax_surface := su \<rparr>
            in (case eval_points func xs of
                  (cs', Inl e) \<Rightarrow> \<lparr> view = v, calls = cs @ cs', raised = Some e \<rparr>
                | (cs', Inr z_traj) \<Rightarrow>
                    \<lparr> view = redraw (v \<lparr> ax_surface :=
                          draw_surface_trajectory su x1_traj x2_traj z_traj \<rparr>),
                      calls = cs @ cs', raised = None \<rparr>)))))))"

definition plot_contour_trajectory ::
  "PlotView \<Rightarrow> (real list \<Rightarrow> error + real) \<Rightarrow> IterationResult list \<Rightarrow> int \<Rightarrow> real \<Rightarrow> int
     \<Rightarrow> outcome"
where
  "plot_contour_trajectory v func iterations levels padding grid_size =
     (let v = v \<lparr> ax_contour := clear (ax_contour v), ax_surface := clear (ax_surface v) \<rparr>
      in if iterations = []
         then \<lparr> view = show_placeholder v, calls = [], raised = None \<rparr>
         else
           (case np_array (map x iterations) of
              Inl e \<Rightarrow> \<lparr> view = v, calls = [], raised = Some e \<rparr>
            | Inr xs \<Rightarrow>
                if ndim xs \<noteq> 2 \<or> shape xs ! 1 \<noteq> 2
                then \<lparr> view = draw_unsupported v, calls = [], raised = None \<rparr>
                else plot_grid v func (rows xs) levels padding grid_size))"


section \<open>Coercions and formatting\<close>

text \<open>Truth value of a Python object, and \<open>a or b\<close>.\<close>

fun num_truthy :: "pynum \<Rightarrow> bool" where
  "num_truthy (NBool b) = b"
| "num_truthy (NInt n) = (n \<noteq> 0)"
| "num_truthy (NFloat r) = (r \<noteq> 0)"

fun py_truthy :: "pyval \<Rightarrow> bool" where
  "py_truthy PyNone = False"
| "py_truthy (PyNum n) = num_truthy n"
| "py_truthy (PyList vs) = (vs \<noteq> [])"

definition py_or :: "pyval \<Rightarrow> pyval \<Rightarrow> pyval" where
  "py_or a b = (if py_truthy a then a else b)"

text \<open>\<open>float(v)\<close> and \<open>int(v)\<close>; \<open>int\<close> of a float truncates towards zero.\<close>

fun num_float :: "pynum \<Rightarrow> real" where
  "num_float (NBool b) = (if b then 1 else 0)"
| "num_float (NInt n) = real_of_int n"
| "num_float (NFloat r) = r"

fun num_int :: "pynum \<Rightarrow> int" where
  "num_int (NBool b) = (if b then 1 else 0)"
| "num_int (NInt n) = n"
| "num_int (NFloat r) = (if 0 \<le> r then \<lfloor>r\<rfloor> else \<lceil>r\<rceil>)"

fun py_float :: "pyval \<Rightarrow> error + real" where
  "py_float PyNone = Inl TypeError"
| "py_float (PyNum n) = Inr (num_float n)"
| "py_float (PyList vs) = Inl TypeError"

fun py_int :: "pyval \<Rightarrow> error + int" where
  "py_int PyNone = Inl TypeError"
| "py_int (PyNum n) = Inr (num_int n)"
| "py_int (PyList vs) = Inl TypeError"

text \<open>\<open>str(n)\<close> of an integer: its decimal digits, with a minus sign when negative.\<close>

definition digit_char :: "nat \<Rightarrow> char" where
  "digit_char d = char_of (48 + d)"

function dec_nat :: "nat \<Rightarrow> string" where
  "dec_nat n = (if n < 10 then [digit_char n] else dec_nat (n div 10) @ [digit_char (n mod 10)])"
  by pat_completeness auto
termination
  by (relation "measure id") auto

definition str_int :: "int \<Rightarrow> string" where
  "str_int i = (if i < 0 then ''-'' @ dec_nat (nat (- i)) else dec_nat (nat i))"

text \<open>
  The format \<open>.3e\<close>: one digit, a point, three digits, then \<open>e\<close>, the sign of the
  decimal exponent and at least two exponent digits. The value is rounded to four
  significant digits, ties to even.
\<close>

definition round_half_even :: "real \<Rightarrow> int" where
  "round_half_even y =
     (let n = \<lfloor>y\<rfloor>; d = y - of_int n
      in if d < 1 / 2 then n else if 1 / 2 < d then n + 1
         else if even n then n else n + 1)"

function scale_down :: "real \<Rightarrow> int \<Rightarrow> real \<times> int" where
  "scale_down a e = (if 10 \<le> a then scale_down (a / 10) (e + 1) else (a, e))"
  by pat_completeness auto
termination
proof (relation "measure (\<lambda>(a, e). nat \<lfloor>a\<rfloor>)")
  show "wf (measure (\<lambda>(a, e). nat \<lfloor>a\<rfloor>))" by simp
next
  fix a :: real and e :: int
  assume h: "10 \<le> a"
  have "a / 10 < a - 1" using h by simp
  then have "\<lfloor>a / 10\<rfloor> \<le> \<lfloor>a - 1\<rfloor>" by (intro floor_mono) simp
  also have "\<lfloor>a - 1\<rfloor> = \<lfloor>a\<rfloor> - 1" by simp
  finally have "\<lfloor>a / 10\<rfloor> < \<lfloor>a\<rfloor>" by simp
  moreover have "0 < \<lfloor>a\<rfloor>" using h by simp
  ultimately show "((a / 10, e + 1), (a, e)) \<in> measure (\<lambda>(a, e). nat \<lfloor>a\<rfloor>)"
    by simp
qed

function scale_up :: "real \<Rightarrow> int \<Rightarrow> real \<times> int" where
  "scale_up a e = (if 0 < a \<and> a < 1 then scale_up (a * 10) (e - 1) else (a, e))"
  by pat_completeness auto
termination
proof (relation "measure (\<lambda>(a, e). nat \<lceil>1 / a\<rceil>)")
  show "wf (measure (\<lambda>(a, e). nat \<lceil>1 / a\<rceil>))" by simp
next
  fix a :: real and e :: int
  assume h: "0 < a \<and> a < 1"
  define y where "y = 1 / a"
  have y1: "1 < y" using h by (simp add: y_def)
  have eq: "1 / (a * 10) = y / 10" by (simp add: y_def)
  have "\<lceil>y / 10\<rceil> < \<lceil>y\<rceil>"
  proof (cases "y \<le> 10")
    case True
    then have "\<lceil>y / 10\<rceil> \<le> 1" by (simp add: ceiling_le_iff)
    moreover have "1 < \<lceil>y\<rceil>" using y1 by (simp add: less_ceiling_iff)
    ultimately show ?thesis by linarith
  next
    case False
    then have "y / 10 + 1 < y" by simp
    moreover have "of_int \<lceil>y / 10\<rceil> < y / 10 + 1" by linarith
    moreover have "y \<le> of_int \<lceil>y\<rceil>" by simp
    ultimately have "(of_int \<lceil>y / 10\<rceil> :: real) < of_int \<lceil>y\<rceil>" by linarith
    then show ?thesis by simp
  qed
  moreover have "0 < \<lceil>y\<rceil>" using y1 by (simp add: less_ceiling_iff)
  ultimately have "nat \<lceil>y / 10\<rceil> < nat \<lceil>y\<rceil>" by linarith
  then have "nat \<lceil>1 / (a * 10)\<rceil> < nat \<lceil>1 / a\<rceil>"
    unfolding eq unfolding y_def .
  then show "((a * 10, e - 1), (a, e)) \<in> measure (\<lambda>(a, e). nat \<lceil>1 / a\<rceil>)"
    by (simp only: in_measure prod.case)
qed

definition pad3 :: "nat \<Rightarrow> string" where
  "pad3 n = [digit_char (n div 100), digit_char (n div 10 mod 10), digit_char (n mod 10)]"

definition exponent_str :: "int \<Rightarrow> string" where
  "exponent_str e =
     (if e < 0 then ''-'' else ''+'') @
     (if \<bar>e\<bar> < 10 then ''0'' else []) @ dec_nat (nat \<bar>e\<bar>)"

definition format_e3 :: "real \<Rightarrow> string" where
  "format_e3 r =
     (if r = 0 then ''0.000e+00''
      else
        let (a, e) = (case scale_down \<bar>r\<bar> 0 of (a, e) \<Rightarrow> scale_up a e);
            m = round_half_even (a * 1000);
            (m, e) = (if m = 10000 then (1000, e + 1) else (m, e))
        in (if r < 0 then ''-'' else []) @
           [digit_char (nat m div 1000)] @ ''.'' @ pad3 (nat m mod 1000) @
           ''e'' @ exponent_str e)"

section \<open>MainWindow\<close>

text \<open>
  Modelled from the spec: the widget \<open>IterationsTableWidget\<close> of \<open>ui/table_view.py\<close>.
  \<open>add_iteration\<close> appends one row to the table, made of the record and the step value
  passed with it; \<open>clear_table\<close> empties the table.
\<close>

type_synonym IterationsTable = "(IterationResult \<times> pyval) list"

definition table_add_iteration ::
  "IterationsTable \<Rightarrow> IterationResult \<Rightarrow> pyval \<Rightarrow> IterationsTable" where
  "table_add_iteration t it step_value = t @ [(it, step_value)]"

definition clear_table :: "IterationsTable \<Rightarrow> IterationsTable" where
  "clear_table t = []"

record MainWindow =
  status_message :: string
  iterations_table :: IterationsTable
  plot_view :: PlotView
  label_func_evals :: string
  label_outer_iters :: string
  label_last_step :: string

definition update_run_stats ::
  "MainWindow \<Rightarrow> int option \<Rightarrow> real option \<Rightarrow> int option \<Rightarrow> MainWindow" where
  "update_run_stats w func_evals last_step n_outer_iters =
     w \<lparr> label_func_evals :=
           ''f evals: '' @ (case func_evals of Some n \<Rightarrow> str_int n | None \<Rightarrow> en_dash),
         label_outer_iters :=
           ''outer iters: '' @ (case n_outer_iters of Some n \<Rightarrow> str_int n | None \<Rightarrow> en_dash),
         label_last_step :=
           (case last_step of None \<Rightarrow> ''step: '' @ en_dash
            | Some s \<Rightarrow> ''step: '' @ format_e3 s) \<rparr>"

text \<open>
  The window as \<open>__init__\<close> leaves it: the status bar says "ready", the table is
  empty, the plot view is newly built, the stat labels are created with their
  placeholder texts and reset once more by \<open>update_run_stats(None, None)\<close>.
\<close>

definition init_window :: MainWindow where
  "init_window = update_run_stats
     \<lparr> status_message = status_ready, iterations_table = [], plot_view = build_ui,
       label_func_evals = ''f evals: '' @ en_dash,
       label_outer_iters = ''outer iters: '' @ en_dash,
       label_last_step = ''step: '' @ en_dash \<rparr> None None None"

definition clear_iterations_table :: "MainWindow \<Rightarrow> MainWindow" where
  "clear_iterations_table w = w \<lparr> iterations_table := clear_table (iterations_table w) \<rparr>"

definition clear_results :: "MainWindow \<Rightarrow> MainWindow" where
  "clear_results w =
     (let w = clear_iterations_table w;
          w = w \<lparr> plot_view := show_placeholder (plot_view w) \<rparr>
      in update_run_stats w None None None)"

definition add_iteration :: "MainWindow \<Rightarrow> IterationResult \<Rightarrow> pyval \<Rightarrow> MainWindow" where
  "add_iteration w iteration step_value =
     w \<lparr> iterations_table := table_add_iteration (iterations_table w) iteration step_value \<rparr>"

text \<open>
  The record built by \<open>add_iteration_row\<close>. The arguments of the constructor are
  evaluated in order, so the first coercion that raises decides the exception. The point
  \<open>x\<close> is a sequence of numbers, each converted by \<open>np.array(x, dtype=float)\<close>.
\<close>

definition row_record ::
  "pyval \<Rightarrow> pynum list \<Rightarrow> pyval \<Rightarrow> pyval \<Rightarrow> error + IterationResult" where
  "row_record k xv f_val step_value =
     (case py_int k of
        Inl e \<Rightarrow> Inl e
      | Inr i \<Rightarrow>
          (case py_float f_val of
             Inl e \<Rightarrow> Inl e
           | Inr fv \<Rightarrow>
               (case py_float (py_or step_value (PyNum (NFloat 0))) of
                  Inl e \<Rightarrow> Inl e
                | Inr sn \<Rightarrow>
                    Inr \<lparr> index = i, x = map num_float xv, f = fv, step_norm = sn,
                          meta = [] \<rparr>)))"

definition add_iteration_row ::
  "MainWindow \<Rightarrow> pyval \<Rightarrow> pynum list \<Rightarrow> pyval \<Rightarrow> pyval \<Rightarrow> MainWindow \<times> error option" where
  "add_iteration_row w k xv f_val step_value =
     (case row_record k xv f_val step_value of
        Inl e \<Rightarrow> (w, Some e)
      | Inr it \<Rightarrow> (add_iteration w it step_value, None))"

definition update_fk_plot :: "MainWindow \<Rightarrow> IterationResult list \<Rightarrow> MainWindow" where
  "update_fk_plot w iterations = w \<lparr> plot_view := view (plot_fk (plot_view w) iterations) \<rparr>"

text \<open>
  \<open>update_contour_trajectory\<close> calls the plot view with the default level count,
  padding and grid size. The window holds the view as the call left it, also when the
  call raised.
\<close>

definition update_contour_trajectory ::
  "MainWindow \<Rightarrow> (real list \<Rightarrow> error + real) \<Rightarrow> IterationResult list
     \<Rightarrow> MainWindow \<times> error option" where
  "update_contour_trajectory w func iterations =
     (let r = plot_contour_trajectory (plot_view w) func iterations 20 0.5 100
      in (w \<lparr> plot_view := view r \<rparr>, raised r))"

text \<open>A call of the public interface, and the window after a sequence of calls.\<close>

datatype call =
    AddIteration IterationResult pyval
  | AddIterationRow pyval "pynum list" pyval pyval
  | UpdateFkPlot "IterationResult list"
  | UpdateContourTrajectory "real list \<Rightarrow> error + real" "IterationResult list"
  | UpdateRunStats "int option" "real option" "int option"

fun run_call :: "call \<Rightarrow> MainWindow \<Rightarrow> MainWindow" where
  "run_call (AddIteration it sv) w = add_iteration w it sv"
| "run_call (AddIterationRow k xv fv sv) w = fst (add_iteration_row w k xv fv sv)"
| "run_call (UpdateFkPlot its) w = update_fk_plot w its"
| "run_call (UpdateContourTrajectory func its) w = fst (update_contour_trajectory w func its)"
| "run_call (UpdateRunStats fe ls no) w = update_run_stats w fe ls no"

definition run_calls :: "call list \<Rightarrow> MainWindow \<Rightarrow> MainWindow" where
  "run_calls cs w = fold run_call cs w"

text \<open>
  The parts of the surface axes that neither \<open>clear()\<close> nor the styling of a 3D axes
  touches.
\<close>

definition frame :: "PlotView \<Rightarrow> string \<times> real" where
  "frame v = (spine_color (ax_surface v), spine_linewidth (ax_surface v))"

text \<open>
  A window on which only the table, the plot and the stat labels have been changed
  since its construction: the status bar still shows the initial message and the frame
  of the surface axes is the one it was created with.
\<close>

definition untouched :: "MainWindow \<Rightarrow> bool" where
  "untouched w \<longleftrightarrow>
     status_message w = status_ready \<and> frame (plot_view w) = frame build_ui"

section \<open>Facts about the placeholder\<close>

lemma clear_clear: "clear (clear a) = clear a"
  by (simp add: clear_def new_axes_def)

lemma show_placeholder_frame:
  "frame v = frame v' \<Longrightarrow> show_placeholder v = show_placeholder v'"
  by (cases v, cases v')
     (simp add: frame_def show_placeholder_def Let_def redraw_def apply_cyberpunk_style_all_def
      clear_all_axes_def style_2d_axes_def clear_def style_3d_axes_def add_artist_def
      new_axes_def)

lemma frame_show_placeholder: "frame (show_placeholder v) = frame v"
  by (simp add: frame_def show_placeholder_def Let_def redraw_def apply_cyberpunk_style_all_def
      clear_all_axes_def clear_def style_3d_axes_def new_axes_def)

lemma show_placeholder_cleared:
  "show_placeholder
     (v \<lparr> ax_contour := clear (ax_contour v), ax_surface := clear (ax_surface v) \<rparr>)
     = show_placeholder v"
  by (rule show_placeholder_frame) (simp add: frame_def clear_def)

lemma show_placeholder_idem: "show_placeholder (show_placeholder v) = show_placeholder v"
  by (rule show_placeholder_frame) (rule frame_show_placeholder)

section \<open>Empty input\<close>

text \<open>
  Claim C1. For an empty iteration sequence, \<open>plot_fk\<close> and \<open>plot_contour_trajectory\<close>
  leave the view exactly as \<open>show_placeholder\<close> does on the same view, raise nothing
  and never call the objective function; showing the placeholder again changes nothing.
\<close>

theorem empty_input_shows_placeholder:
  "plot_fk v [] = \<lparr> view = show_placeholder v, calls = [], raised = None \<rparr> \<and>
   plot_contour_trajectory v func [] levels padding grid_size
     = \<lparr> view = show_placeholder v, calls = [], raised = None \<rparr> \<and>
   show_placeholder (show_placeholder v) = show_placeholder v"
  by (simp add: plot_fk_def plot_contour_trajectory_def Let_def show_placeholder_cleared
      show_placeholder_idem)

theorem empty_input_shows_placeholder_witness:
  "plot_fk build_ui [] = \<lparr> view = show_placeholder build_ui, calls = [], raised = None \<rparr> \<and>
   plot_contour_trajectory build_ui (\<lambda>p. Inr 0) [] 20 (1 / 2) 100
     = \<lparr> view = show_placeholder build_ui, calls = [], raised = None \<rparr>"
  using empty_input_shows_placeholder [of build_ui "\<lambda>p. Inr 0" 20 "1 / 2" 100]
  by simp

section \<open>The stat labels\<close>

text \<open>
  Claim C6. \<open>update_run_stats(None, None)\<close> sets the three labels to \<open>f evals: \<close>,
  \<open>outer iters: \<close> and \<open>step: \<close>, each followed by the en dash;
  \<open>update_run_stats(42, 0.0013, 7)\<close> sets them to \<open>f evals: 42\<close>, \<open>outer iters: 7\<close> and
  \<open>step: 1.300e-03\<close>. The last line of the statement takes for \<open>0.0013\<close> the exact
  value of the nearest double instead of the decimal fraction.
\<close>

theorem update_run_stats_labels:
  "label_func_evals (update_run_stats w None None None) = ''f evals: '' @ en_dash \<and>
   label_outer_iters (update_run_stats w None None None) = ''outer iters: '' @ en_dash \<and>
   label_last_step (update_run_stats w None None None) = ''step: '' @ en_dash \<and>
   label_func_evals (update_run_stats w (Some 42) (Some 0.0013) (Some 7)) = ''f evals: 42'' \<and>
   label_outer_iters (update_run_stats w (Some 42) (Some 0.0013) (Some 7))
     = ''outer iters: 7'' \<and>
   label_last_step (update_run_stats w (Some 42) (Some 0.0013) (Some 7))
     = ''step: 1.300e-03'' \<and>
   label_last_step (update_run_stats w (Some 42)
       (Some (1498797955988901 / 1152921504606846976)) (Some 7)) = ''step: 1.300e-03''"
  by (simp add: update_run_stats_def str_int_def format_e3_def round_half_even_def pad3_def
      exponent_str_def digit_char_def char_of_def bit_0)

section \<open>Rows built from primitive values\<close>


text \<open>
  Claim C8. For every index, point and value, a step value of \<open>0.0\<close> and a missing
  step value give the same result of the record construction, and when a record is
  built its step norm is 0.
\<close>

theorem zero_step_same_as_missing:
  "row_record k xv f_val (PyNum (NFloat 0)) = row_record k xv f_val PyNone \<and>
   (row_record k xv f_val PyNone = Inr it \<longrightarrow> step_norm it = 0)"
  by (auto simp add: row_record_def py_or_def split: sum.splits)

theorem zero_step_same_as_missing_witness:
  "row_record (PyNum (NInt 3)) [NFloat 1, NFloat 2] (PyNum (NFloat 5.5)) (PyNum (NFloat 0))
     = Inr \<lparr> index = 3, x = [1, 2], f = 5.5, step_norm = 0, meta = [] \<rparr> \<and>
   row_record (PyNum (NInt 3)) [NFloat 1, NFloat 2] (PyNum (NFloat 5.5)) PyNone
     = Inr \<lparr> index = 3, x = [1, 2], f = 5.5, step_norm = 0, meta = [] \<rparr> \<and>
   step_norm \<lparr> index = 3, x = [1, 2], f = 5.5, step_norm = 0, meta = [] \<rparr> = 0"
  using zero_step_same_as_missing [of "PyNum (NInt 3)" "[NFloat 1, NFloat 2]"
      "PyNum (NFloat 5.5)" "\<lparr> index = 3, x = [1, 2], f = 5.5, step_norm = 0, meta = [] \<rparr>"]
  by (simp add: row_record_def py_or_def)

section \<open>The plotting domain\<close>











text \<open>The samples on an axis start and end at the bounds.\<close>

lemma linspace_ends:
  assumes "2 \<le> n"
  shows "\<exists>vs. linspace a b n = Inr vs \<and> length vs = nat n \<and> hd vs = a \<and> last vs = b"
proof -
  have n: "\<not> n < 0" "n \<noteq> 1" "0 < nat n" using assms by auto
  let ?vs = "map (\<lambda>k. a + real k * ((b - a) / real (nat n - 1))) [0 ..< nat n]"
  have "linspace a b n = Inr ?vs" using n by (simp add: linspace_def)
  moreover have "length ?vs = nat n" by simp
  moreover have "hd ?vs = a" using n by (simp add: hd_map upt_conv_Cons)
  moreover have "last ?vs = b" using assms by (simp add: last_map nat_diff_distrib)
  ultimately show ?thesis by blast
qed

section \<open>Points outside the plane\<close>

lemma np_array_uniform:
  assumes "rs \<noteq> []" and "\<forall>r \<in> set rs. length r = d"
  shows "np_array rs = Inr \<lparr> shape = [length rs, d], rows = rs \<rparr>"
proof -
  obtain r rest where rs: "rs = r # rest" using assms(1) by (cases rs) auto
  have "list_all (\<lambda>r'. length r' = length r) rest"
    using assms(2) by (simp add: rs list_all_iff)
  moreover have "length r = d" using assms(2) by (simp add: rs)
  ultimately show ?thesis by (simp add: np_array_def rs)
qed

lemma two_dimensional_case:
  assumes "iterations \<noteq> []" and "\<forall>it \<in> set iterations. length (x it) = 2"
  shows "plot_contour_trajectory v func iterations levels padding grid_size =
           plot_grid (v \<lparr> ax_contour := clear (ax_contour v),
                          ax_surface := clear (ax_surface v) \<rparr>)
             func (map x iterations) levels padding grid_size"
proof -
  have "np_array (map x iterations)
          = Inr \<lparr> shape = [length (map x iterations), 2], rows = map x iterations \<rparr>"
    by (rule np_array_uniform) (use assms in auto)
  then show ?thesis
    using assms(1) by (simp add: plot_contour_trajectory_def Let_def ndim_def)
qed




section \<open>Calls of the objective function\<close>

lemma eval_points_raise:
  "eval_points func ps = (cs, r) \<Longrightarrow> p \<in> set cs \<Longrightarrow> func p = Inl e \<Longrightarrow> r = Inl e"
proof (induction ps arbitrary: cs r)
  case Nil
  then show ?case by simp
next
  case (Cons q ps)
  show ?case
  proof (cases "func q")
    case (Inl e')
    with Cons.prems show ?thesis by auto
  next
    case (Inr z)
    obtain cs' r' where rest: "eval_points func ps = (cs', r')"
      by (cases "eval_points func ps") auto
    from Cons.prems(1) Inr rest have cs: "cs = q # cs'"
      by (auto split: sum.splits)
    from Cons.prems(2,3) Inr cs have "p \<in> set cs'" by auto
    with rest have "r' = Inl e" using Cons.prems(3) by (rule Cons.IH)
    with Cons.prems(1) Inr rest show ?thesis by auto
  qed
qed

lemma eval_points_ok: "eval_points func ps = (cs, Inr zs) \<Longrightarrow> cs = ps"
  by (induction ps arbitrary: cs zs) (auto split: prod.splits sum.splits)

lemma eval_grid_raise:
  "eval_grid func g = (cs, r) \<Longrightarrow> p \<in> set cs \<Longrightarrow> func p = Inl e \<Longrightarrow> r = Inl e"
proof (induction g arbitrary: cs r)
  case Nil
  then show ?case by simp
next
  case (Cons row g)
  obtain c1 r1 where row: "eval_points func row = (c1, r1)"
    by (cases "eval_points func row") auto
  show ?case
  proof (cases r1)
    case (Inl e')
    with Cons.prems(1) row have "cs = c1" "r = Inl e'" by auto
    moreover have "p \<in> set c1 \<Longrightarrow> r1 = Inl e"
      using row _ Cons.prems(3) by (rule eval_points_raise)
    ultimately show ?thesis using Cons.prems(2) Inl by auto
  next
    case (Inr zs)
    obtain c2 r2 where rest: "eval_grid func g = (c2, r2)"
      by (cases "eval_grid func g") auto
    from Cons.prems(1) row Inr rest have cs: "cs = c1 @ c2"
      by (auto split: sum.splits)
    have "p \<notin> set c1"
      using eval_points_raise [OF row _ Cons.prems(3)] Inr by auto
    with Cons.prems(2) cs have "p \<in> set c2" by auto
    with rest have "r2 = Inl e" using Cons.prems(3) by (rule Cons.IH)
    with Cons.prems(1) row Inr rest show ?thesis by auto
  qed
qed

lemma eval_grid_ok: "eval_grid func g = (cs, Inr Z) \<Longrightarrow> cs = concat g"
proof (induction g arbitrary: cs Z)
  case Nil
  then show ?case by simp
next
  case (Cons row g)
  then show ?case
    by (auto split: prod.splits sum.splits dest: eval_points_ok)
qed

lemma plot_grid_raise:
  assumes "p \<in> set (calls (plot_grid v func xs levels padding grid_size))"
    and "func p = Inl e"
  shows "raised (plot_grid v func xs levels padding grid_size) = Some e"
proof -
  have g: "\<And>G cs r. eval_grid func G = (cs, r) \<Longrightarrow> p \<in> set cs \<Longrightarrow> r = Inl e"
    using assms(2) by (rule eval_grid_raise [rotated 2])
  have t: "\<And>ps cs r. eval_points func ps = (cs, r) \<Longrightarrow> p \<in> set cs \<Longrightarrow> r = Inl e"
    using assms(2) by (rule eval_points_raise [rotated 2])
  show ?thesis
    using assms(1)
    by (auto simp: plot_grid_def Let_def split: sum.splits prod.splits if_splits
        dest: g t)
qed

text \<open>
  Claim C9. For a non-empty sequence of two-dimensional points: when the objective
  function raises at a point at which \<open>plot_contour_trajectory\<close> calls it, the call of
  \<open>plot_contour_trajectory\<close> ends with that very exception.
\<close>

theorem objective_exception_propagates:
  assumes "iterations \<noteq> []"
    and "\<forall>it \<in> set iterations. length (x it) = 2"
    and "p \<in> set (calls (plot_contour_trajectory v func iterations levels padding grid_size))"
    and "func p = Inl e"
  shows "raised (plot_contour_trajectory v func iterations levels padding grid_size) = Some e"
  using assms(3) unfolding two_dimensional_case [OF assms(1,2)]
  by (rule plot_grid_raise) (rule assms(4))

lemma length_linspace: "linspace a b n = Inr vs \<Longrightarrow> length vs = nat n"
  by (auto simp: linspace_def split: if_splits)

lemma length_grid_points:
  assumes "length x1_vals = n" and "length x2_vals = n"
    and "meshgrid x1_vals x2_vals = (X1, X2)"
  shows "length (concat (grid_points X1 X2)) = n * n"
proof -
  have X: "X1 = replicate n x1_vals" "X2 = map (\<lambda>y. replicate n y) x2_vals"
    using assms by (auto simp: meshgrid_def)
  have "map length (grid_points X1 X2) = replicate n n"
    unfolding X grid_points_def using assms(1,2)
    by (auto simp: list_eq_iff_nth_eq)
  then show ?thesis by (simp add: length_concat sum_list_replicate)
qed

lemma plot_grid_call_count:
  assumes "raised (plot_grid v func xs levels padding grid_size) = None"
  shows "length (calls (plot_grid v func xs levels padding grid_size))
           = nat grid_size * nat grid_size + length xs \<and> 2 \<le> grid_size"
proof -
  have H: "\<And>a b c d x1 x2 X1 X2 cs Z cs' zs.
      linspace a b grid_size = Inr x1 \<Longrightarrow> linspace c d grid_size = Inr x2 \<Longrightarrow>
      meshgrid x1 x2 = (X1, X2) \<Longrightarrow> eval_grid func (grid_points X1 X2) = (cs, Inr Z) \<Longrightarrow>
      eval_points func xs = (cs', Inr zs) \<Longrightarrow>
      length cs + length cs' = nat grid_size * nat grid_size + length xs"
  proof -
    fix a b c d x1 x2 X1 X2 cs Z cs' zs
    assume l1: "linspace a b grid_size = Inr x1"
      and l2: "linspace c d grid_size = Inr x2"
      and m: "meshgrid x1 x2 = (X1, X2)"
      and g: "eval_grid func (grid_points X1 X2) = (cs, Inr Z)"
      and t: "eval_points func xs = (cs', Inr zs)"
    have "length (concat (grid_points X1 X2)) = nat grid_size * nat grid_size"
      using length_linspace [OF l1] length_linspace [OF l2] m by (rule length_grid_points)
    moreover have "cs = concat (grid_points X1 X2)" using g by (rule eval_grid_ok)
    moreover have "cs' = xs" using t by (rule eval_points_ok)
    ultimately show "length cs + length cs' = nat grid_size * nat grid_size + length xs"
      by simp
  qed
  show ?thesis
    using assms
    by (auto simp: plot_grid_def Let_def split: sum.splits prod.splits if_splits
        intro: H)
qed

text \<open>
  Claim C10. For a non-empty sequence of \<open>n\<close> two-dimensional points on which
  \<open>plot_contour_trajectory\<close> raises nothing, the objective function is called
  \<open>grid_size * grid_size + n\<close> times.
\<close>

theorem objective_call_count:
  assumes "iterations \<noteq> []"
    and "\<forall>it \<in> set iterations. length (x it) = 2"
    and "raised (plot_contour_trajectory v func iterations levels padding grid_size) = None"
  shows "int (length (calls
            (plot_contour_trajectory v func iterations levels padding grid_size)))
           = grid_size * grid_size + int (length iterations)"
proof -
  let ?v = "v \<lparr> ax_contour := clear (ax_contour v), ax_surface := clear (ax_surface v) \<rparr>"
  have r: "raised (plot_grid ?v func (map x iterations) levels padding grid_size) = None"
    using assms(3) unfolding two_dimensional_case [OF assms(1,2)] .
  have "length (calls (plot_grid ?v func (map x iterations) levels padding grid_size))
          = nat grid_size * nat grid_size + length (map x iterations)"
    and g: "2 \<le> grid_size"
    using plot_grid_call_count [OF r] by auto
  then show ?thesis
    unfolding two_dimensional_case [OF assms(1,2)] by simp
qed

text \<open>Running the model on a grid of size 2.\<close>

lemma upt_0_2: "[0 ..< 2] = [0, Suc 0]"
  by (simp add: upt_rec)

lemmas run_defs = plot_contour_trajectory_def np_array_def ndim_def plot_grid_def
  axis_bounds_def column_def expand_degenerate_def apply_padding_def linspace_def
  meshgrid_def grid_points_def Let_def upt_0_2

theorem objective_exception_propagates_witness:
  "[- (3 / 2), - (3 / 2)] \<in> set (calls (plot_contour_trajectory build_ui
       (\<lambda>p. Inl (Raised ''boom''))
       [\<lparr> index = 0, x = [0, 0], f = 0, step_norm = 0, meta = [] \<rparr>] 20 (1 / 2) 2)) \<and>
   raised (plot_contour_trajectory build_ui (\<lambda>p. Inl (Raised ''boom''))
       [\<lparr> index = 0, x = [0, 0], f = 0, step_norm = 0, meta = [] \<rparr>] 20 (1 / 2) 2)
     = Some (Raised ''boom'')"
proof -
  let ?R = "plot_contour_trajectory build_ui (\<lambda>p. Inl (Raised ''boom''))
       [\<lparr> index = 0, x = [0, 0], f = 0, step_norm = 0, meta = [] \<rparr>] 20 (1 / 2) 2"
  have h: "[- (3 / 2), - (3 / 2)] \<in> set (calls ?R)"
    by (simp add: run_defs)
  have "raised ?R = Some (Raised ''boom'')"
    by (rule objective_exception_propagates [OF _ _ h]) simp_all
  with h show ?thesis by (rule conjI)
qed

theorem objective_call_count_witness:
  "raised (plot_contour_trajectory build_ui (\<lambda>p. Inr (p ! 0 * p ! 0 + p ! 1 * p ! 1))
       [\<lparr> index = 0, x = [0, 0], f = 0, step_norm = 0, meta = [] \<rparr>] 20 (1 / 2) 2) = None \<and>
   int (length (calls (plot_contour_trajectory build_ui
       (\<lambda>p. Inr (p ! 0 * p ! 0 + p ! 1 * p ! 1))
       [\<lparr> index = 0, x = [0, 0], f = 0, step_norm = 0, meta = [] \<rparr>] 20 (1 / 2) 2))) = 5"
proof -
  let ?R = "plot_contour_trajectory build_ui (\<lambda>p. Inr (p ! 0 * p ! 0 + p ! 1 * p ! 1))
       [\<lparr> index = 0, x = [0, 0], f = 0, step_norm = 0, meta = [] \<rparr>] 20 (1 / 2) 2"
  have h: "raised ?R = None"
    by (simp add: run_defs)
  have "int (length (calls ?R)) = 2 * 2 + int (length
      [\<lparr> index = 0, x = [0::real, 0], f = 0::real, step_norm = 0::real, meta = [] \<rparr>])"
    by (rule objective_call_count [OF _ _ h]) simp_all
  with h show ?thesis by simp
qed

section \<open>Clearing the results\<close>

lemma frame_plot_fk: "frame (view (plot_fk v its)) = frame v"
  by (simp add: plot_fk_def frame_show_placeholder Let_def redraw_def)
     (simp add: frame_def)

lemma frame_add_artist:
  "spine_color (add_artist a ax) = spine_color ax"
  "spine_linewidth (add_artist a ax) = spine_linewidth ax"
  by (simp_all add: add_artist_def)

lemma frame_style_3d:
  "spine_color (style_3d_axes ax) = spine_color ax"
  "spine_linewidth (style_3d_axes ax) = spine_linewidth ax"
  by (simp_all add: style_3d_axes_def)

lemma frame_clear:
  "spine_color (clear ax) = spine_color ax"
  "spine_linewidth (clear ax) = spine_linewidth ax"
  by (simp_all add: clear_def)

lemma frame_draw_surface_trajectory:
  "spine_color (draw_surface_trajectory su a b c) = spine_color su"
  "spine_linewidth (draw_surface_trajectory su a b c) = spine_linewidth su"
  by (simp_all add: draw_surface_trajectory_def Let_def frame_add_artist)

lemma frame_plot_grid:
  "frame (view (plot_grid v func xs levels padding grid_size)) = frame v"
  by (auto simp: plot_grid_def Let_def frame_def redraw_def frame_add_artist frame_style_3d
      frame_draw_surface_trajectory split: sum.splits prod.splits)

lemma frame_draw_unsupported: "frame (draw_unsupported v) = frame v"
  by (simp add: draw_unsupported_def Let_def frame_def redraw_def frame_add_artist
      frame_style_3d)

lemma frame_plot_contour_trajectory:
  "frame (view (plot_contour_trajectory v func its levels padding grid_size)) = frame v"
proof -
  have "frame (v \<lparr> ax_contour := clear (ax_contour v), ax_surface := clear (ax_surface v) \<rparr>)
          = frame v"
    by (simp add: frame_def frame_clear)
  then show ?thesis
    by (auto simp: plot_contour_trajectory_def Let_def frame_show_placeholder
        frame_plot_grid frame_draw_unsupported split: sum.splits)
qed

lemma untouched_init: "untouched init_window"
  by (simp add: untouched_def init_window_def update_run_stats_def)

lemma untouched_run_call: "untouched w \<Longrightarrow> untouched (run_call c w)"
  by (cases c)
     (auto simp: untouched_def add_iteration_def add_iteration_row_def update_fk_plot_def
      update_contour_trajectory_def update_run_stats_def Let_def frame_plot_fk
      frame_plot_contour_trajectory split: sum.splits)

lemma untouched_run_calls: "untouched w \<Longrightarrow> untouched (run_calls cs w)"
  unfolding run_calls_def
  by (induction cs arbitrary: w) (simp_all add: untouched_run_call)

lemma clear_results_untouched:
  assumes "untouched w"
  shows "clear_results w = init_window"
proof -
  have "frame (plot_view w) = frame (apply_cyberpunk_style_all
          \<lparr> ax_surface = new_axes, ax_fk = new_axes, ax_contour = new_axes \<rparr>)"
    using assms by (simp add: untouched_def build_ui_def frame_show_placeholder)
  then have "show_placeholder (plot_view w) = build_ui"
    unfolding build_ui_def by (rule show_placeholder_frame)
  then show ?thesis
    using assms
    by (simp add: clear_results_def clear_iterations_table_def clear_table_def Let_def
        update_run_stats_def init_window_def untouched_def)
qed

text \<open>
  Claim C5. After any sequence of calls of \<open>add_iteration\<close>, \<open>add_iteration_row\<close>,
  \<open>update_fk_plot\<close>, \<open>update_contour_trajectory\<close> and \<open>update_run_stats\<close> on a new
  window, whether or not some of them raised, \<open>clear_results\<close> gives back the window as
  it was constructed: the table is empty, the plot view is the placeholder, and the three
  labels end with the en dash.
\<close>

theorem clear_results_restores_initial_state:
  "clear_results (run_calls cs init_window) = init_window \<and>
   iterations_table init_window = [] \<and>
   plot_view init_window = show_placeholder (plot_view init_window) \<and>
   label_func_evals init_window = ''f evals: '' @ en_dash \<and>
   label_outer_iters init_window = ''outer iters: '' @ en_dash \<and>
   label_last_step init_window = ''step: '' @ en_dash"
proof -
  have "clear_results (run_calls cs init_window) = init_window"
    by (rule clear_results_untouched) (rule untouched_run_calls [OF untouched_init])
  moreover have "plot_view init_window = show_placeholder (plot_view init_window)"
    by (simp add: init_window_def update_run_stats_def build_ui_def show_placeholder_idem)
  ultimately show ?thesis
    by (simp add: init_window_def update_run_stats_def)
qed

theorem clear_results_restores_initial_state_witness:
  "iterations_table (run_calls
      [AddIteration \<lparr> index = 0, x = [0, 0], f = 0, step_norm = 0, meta = [] \<rparr> PyNone,
       UpdateFkPlot [\<lparr> index = 0, x = [0, 0], f = 0, step_norm = 0, meta = [] \<rparr>],
       UpdateRunStats (Some 42) (Some 0.0013) (Some 7)] init_window) \<noteq> [] \<and>
   clear_results (run_calls
      [AddIteration \<lparr> index = 0, x = [0, 0], f = 0, step_norm = 0, meta = [] \<rparr> PyNone,
       UpdateFkPlot [\<lparr> index = 0, x = [0, 0], f = 0, step_norm = 0, meta = [] \<rparr>],
       UpdateRunStats (Some 42) (Some 0.0013) (Some 7)] init_window) = init_window"
proof -
  let ?cs = "[AddIteration \<lparr> index = 0, x = [0, 0], f = 0, step_norm = 0, meta = [] \<rparr> PyNone,
       UpdateFkPlot [\<lparr> index = 0, x = [0, 0], f = 0, step_norm = 0, meta = [] \<rparr>],
       UpdateRunStats (Some 42) (Some 0.0013) (Some 7)]"
  have changed: "iterations_table (run_calls ?cs init_window) \<noteq> []"
    by (simp add: run_calls_def add_iteration_def table_add_iteration_def update_fk_plot_def
        update_run_stats_def)
  have "clear_results (run_calls ?cs init_window) = init_window"
    using clear_results_restores_initial_state [of ?cs] by (rule conjunct1)
  with changed show ?thesis by (rule conjI)
qed

end
